theory Spec2Isabelle
  imports Main
begin

section \<open>JavaScript objects, strings and values\<close>

text \<open>
  The backend (\<^verbatim>\<open>src/backend/index.js\<close>) keeps all of its data in one lowdb
  database whose chained queries hand out references into the in-memory state, so every
  assignment to \<^verbatim>\<open>user.progress[week]...\<close> changes that state at once. The model
  passes the state explicitly.

  A JavaScript object is modelled as the list of its own properties in insertion order:
  \<open>getProp\<close> is \<^verbatim>\<open>obj[k]\<close> (\<open>None\<close> for \<^verbatim>\<open>undefined\<close>) and \<open>setProp\<close> is
  \<^verbatim>\<open>obj[k] = v\<close>, which overwrites an existing property in place and appends a new one.
  Names that a real object inherits from \<^verbatim>\<open>Object.prototype\<close> (\<^verbatim>\<open>constructor\<close>,
  \<^verbatim>\<open>__proto__\<close>, ...) and the engine's reordering of integer-like keys are outside the
  model.
\<close>

type_synonym 'v object = "(string \<times> 'v) list"

fun getProp :: "'v object \<Rightarrow> string \<Rightarrow> 'v option" where
  "getProp [] k = None"
| "getProp ((k', v) # ps) k = (if k' = k then Some v else getProp ps k)"

fun setProp :: "'v object \<Rightarrow> string \<Rightarrow> 'v \<Rightarrow> 'v object" where
  "setProp [] k v = [(k, v)]"
| "setProp ((k', v') # ps) k v =
     (if k' = k then (k, v) # ps else (k', v') # setProp ps k v)"

text \<open>\<^verbatim>\<open>Object.keys(obj)\<close>; \<^verbatim>\<open>Object.entries(obj)\<close> is the property list itself.\<close>

definition keys :: "'v object \<Rightarrow> string list" where
  "keys obj = map fst obj"

text \<open>\<^verbatim>\<open>s.startsWith(p)\<close>, \<^verbatim>\<open>s.includes(p)\<close> (named \<open>strIncludes\<close> here) and
  \<^verbatim>\<open>s.split(sep)\<close> for a one-character separator.\<close>

fun startsWith :: "string \<Rightarrow> string \<Rightarrow> bool" where
  "startsWith s [] = True"
| "startsWith [] (c # p) = False"
| "startsWith (x # s) (c # p) = (x = c \<and> startsWith s p)"

fun strIncludes :: "string \<Rightarrow> string \<Rightarrow> bool" where
  "strIncludes [] p = (p = [])"
| "strIncludes (x # s) p = (startsWith (x # s) p \<or> strIncludes s p)"

fun split :: "string \<Rightarrow> char \<Rightarrow> string list" where
  "split [] sep = [[]]"
| "split (x # s) sep =
     (if x = sep then [] # split s sep
      else (x # hd (split s sep)) # tl (split s sep))"

text \<open>
  The values found under \<^verbatim>\<open>user.progress[week]\<close>: the boolean of a task, the numbers
  \<^verbatim>\<open>total\<close> and \<^verbatim>\<open>completed\<close>, and the \<^verbatim>\<open>daily\<close> object that maps a day name to
  \<^verbatim>\<open>{ completed, total }\<close>. They all live in one object, side by side.
\<close>

record dayCounter =
  completed :: int
  total :: int

datatype jsval = JBool bool | JNum int | JDaily "dayCounter object"

text \<open>What \<^verbatim>\<open>if (x)\<close> sees; \<^verbatim>\<open>!x\<close> is its negation. An object is always truthy.\<close>

fun truthy :: "jsval option \<Rightarrow> bool" where
  "truthy None = False"
| "truthy (Some (JBool b)) = b"
| "truthy (Some (JNum n)) = (n \<noteq> 0)"
| "truthy (Some (JDaily d)) = True"

section \<open>The database\<close>

text \<open>
  \<open>startDate\<close> holds the instant that \<^verbatim>\<open>new Date(user.startDate)\<close> denotes, in
  milliseconds since the epoch, and \<open>None\<close> when the field is missing or empty (falsy).
  All the millisecond values involved are integers below \<open>2^53\<close>, where the double
  arithmetic of \<^verbatim>\<open>Math.floor(a / b)\<close> agrees with integer division.
  \<open>progress\<close> maps a week (as a property name) to that week's object.
\<close>

record user =
  userChatId :: int
  startDate :: "int option"
  progress :: "jsval object object option"

record scheduleTask =
  title :: string
  description :: string
  mealContent :: "string option"

record schedule =
  scheduleChatId :: int
  tasks :: "scheduleTask object"

record workout =
  workoutChatId :: int
  workoutWeek :: int
  workoutDay :: string
  workoutTitle :: string
  workoutDescription :: string
  details :: string

record meal =
  mealChatId :: int
  mealDay :: string
  mainMeal :: string
  snack :: string

record database =
  users :: "user list"
  schedules :: "schedule list"
  workouts :: "workout list"
  meals :: "meal list"

text \<open>\<^verbatim>\<open>db.get("users").find({ chatId: parseInt(chatId) }).value()\<close>: the first row that
  matches, with \<open>chatId\<close> the parsed number.\<close>

definition findUser :: "database \<Rightarrow> int \<Rightarrow> user option" where
  "findUser db chatId = List.find (\<lambda>u. userChatId u = chatId) (users db)"




section \<open>The current week\<close>

text \<open>\<^verbatim>\<open>calculateCurrentWeek(chatId)\<close>, with the clock reading \<^verbatim>\<open>new Date()\<close> passed in
  as \<open>now\<close>.\<close>

definition calculateCurrentWeek :: "database \<Rightarrow> int \<Rightarrow> int \<Rightarrow> int" where
  "calculateCurrentWeek db now chatId =
     (case findUser db chatId of
        None \<Rightarrow> 1
      | Some user \<Rightarrow>
          (case startDate user of
             None \<Rightarrow> 1
           | Some start \<Rightarrow>
               (let diffTime = \<bar>now - start\<bar>;
                    diffDays = diffTime div (1000 * 60 * 60 * 24);
                    currentWeek = diffDays div 7 + 1
                in min currentWeek 8)))"

text \<open>The specification's \<open>currentWeek(startTimestamp, now)\<close>, written from its words:
  \<open>days = floor(abs(now - startTimestamp) / 86400s)\<close>, \<open>week = floor(days / 7) + 1\<close>,
  result \<open>min(week, 8)\<close>; timestamps in milliseconds.\<close>

definition currentWeek_spec :: "int \<Rightarrow> int \<Rightarrow> int" where
  "currentWeek_spec startTimestamp now =
     min ((\<bar>now - startTimestamp\<bar> div 86400000) div 7 + 1) 8"

definition msPerDay :: int where
  "msPerDay = 86400000"

section \<open>The schedule of a day\<close>



section \<open>Recording progress\<close>

text \<open>
  \<^verbatim>\<open>updateProgress(chatId, task, week, completed)\<close> in four parts, in the order of the
  source. The flag \<^verbatim>\<open>completed\<close> is written \<open>completed'\<close>, since \<open>completed\<close> is the
  field of a day's counter. \<open>recordTask\<close> is lines 412-418: store the flag under the
  task's own name, then make sure \<^verbatim>\<open>daily\<close> is truthy.
\<close>

definition recordTask :: "jsval object \<Rightarrow> string \<Rightarrow> bool \<Rightarrow> jsval object" where
  "recordTask wk task completed' =
     (let wk1 = setProp wk task (JBool completed')
      in if \<not> truthy (getProp wk1 ''daily'') then setProp wk1 ''daily'' (JDaily []) else wk1)"

text \<open>
  Lines 420-442, on the week object that \<open>recordTask\<close> left. When \<^verbatim>\<open>daily[day]\<close> is
  missing it is created with \<open>total\<close> counted from the keys; when it is there, only
  \<open>completed\<close> is counted again (\<open>counter\<close> is the object the last assignment writes to).
  When \<^verbatim>\<open>daily\<close> is not an object but a primitive (a task named \<^verbatim>\<open>daily\<close> was stored
  as \<^verbatim>\<open>true\<close>), \<^verbatim>\<open>daily[day]\<close> is \<^verbatim>\<open>undefined\<close>, creating it has no effect, and the
  assignment to its \<open>total\<close> throws a \<^verbatim>\<open>TypeError\<close>.
\<close>

datatype error = TypeError

definition updateDaily :: "jsval object \<Rightarrow> string \<Rightarrow> error + jsval object" where
  "updateDaily wk task =
     (let taskParts = split task CHR ''_'' in
      if length taskParts > 1 then
        (let day = hd taskParts in
         case getProp wk ''daily'' of
           Some (JDaily daily) \<Rightarrow>
             (let dayTasks = filter (\<lambda>key. startsWith key (day @ ''_'')) (keys wk);
                  counter = (case getProp daily day of
                               None \<Rightarrow> \<lparr>completed = 0, total = int (length dayTasks)\<rparr>
                             | Some c \<Rightarrow> c);
                  completedDayTasks =
                    length (filter (\<lambda>(key, value).
                                      startsWith key (day @ ''_'') \<and> value = JBool True) wk)
              in Inr (setProp wk ''daily''
                        (JDaily (setProp daily day
                                   (counter\<lparr>completed := int completedDayTasks\<rparr>)))))
         | _ \<Rightarrow> Inl TypeError)
      else Inr wk)"

text \<open>Lines 444-454: both counts are taken before either is stored.\<close>

definition updateTotals :: "jsval object \<Rightarrow> jsval object" where
  "updateTotals wk =
     (let totalTasks = length (filter (\<lambda>key. \<not> strIncludes key ''daily'') (keys wk));
          completedTasks =
            length (filter (\<lambda>(key, value).
                              \<not> strIncludes key ''daily'' \<and> value = JBool True) wk)
      in setProp (setProp wk ''total'' (JNum (int totalTasks)))
           ''completed'' (JNum (int completedTasks)))"

text \<open>The user object is changed in place: the first row with this \<open>chatId\<close>.\<close>

fun updateFirst :: "('a \<Rightarrow> bool) \<Rightarrow> ('a \<Rightarrow> 'a) \<Rightarrow> 'a list \<Rightarrow> 'a list" where
  "updateFirst P f [] = []"
| "updateFirst P f (x # xs) = (if P x then f x # xs else x # updateFirst P f xs)"

definition storeWeek ::
  "database \<Rightarrow> int \<Rightarrow> jsval object object \<Rightarrow> string \<Rightarrow> jsval object \<Rightarrow> database" where
  "storeWeek db chatId prog week wk =
     db\<lparr>users := updateFirst (\<lambda>u. userChatId u = chatId)
                    (\<lambda>u. u\<lparr>progress := Some (setProp prog week wk)\<rparr>) (users db)\<rparr>"

text \<open>
  The whole function. It returns nothing; the result is the exception, if one was thrown,
  and the state of the database afterwards. An exception leaves the state as it was when
  it was thrown: with the flag stored and the counts untouched.
\<close>

definition updateProgress ::
  "database \<Rightarrow> int \<Rightarrow> string \<Rightarrow> string \<Rightarrow> bool \<Rightarrow> error option \<times> database" where
  "updateProgress db chatId task week completed' =
     (case findUser db chatId of
        None \<Rightarrow> (None, db)
      | Some user \<Rightarrow>
          (let prog = (case progress user of None \<Rightarrow> [] | Some p \<Rightarrow> p);
               wk0 = (case getProp prog week of None \<Rightarrow> [] | Some wk \<Rightarrow> wk);
               wk1 = recordTask wk0 task completed'
           in case updateDaily wk1 task of
                Inl e \<Rightarrow> (Some e, storeWeek db chatId prog week wk1)
              | Inr wk2 \<Rightarrow> (None, storeWeek db chatId prog week (updateTotals wk2))))"

section \<open>Reading progress\<close>

definition daysOfWeek :: "string list" where
  "daysOfWeek = [''monday'', ''tuesday'', ''wednesday'', ''thursday'', ''friday'',
                 ''saturday'', ''sunday'']"

definition emptyProgress :: "jsval object" where
  "emptyProgress = [(''daily'', JDaily []), (''total'', JNum 0), (''completed'', JNum 0)]"

text \<open>The \<^verbatim>\<open>forEach\<close> of the handler of \<^verbatim>\<open>/get-progress\<close>: the \<^verbatim>\<open>daily\<close> object it builds
  for a week object \<open>wk\<close>.\<close>

definition backfillDaily :: "jsval object \<Rightarrow> dayCounter object" where
  "backfillDaily wk =
     foldl (\<lambda>daily day.
              (let dayTasks = filter (\<lambda>key. startsWith key (day @ ''_'')) (keys wk) in
               if length dayTasks > 0 then
                 (let completedDayTasks =
                        length (filter (\<lambda>key. getProp wk key = Some (JBool True)) dayTasks)
                  in setProp daily day
                       \<lparr>completed = int completedDayTasks, total = int (length dayTasks)\<rparr>)
               else daily))
       [] daysOfWeek"

text \<open>The handler of \<^verbatim>\<open>/get-progress\<close>: the JSON it answers with and the state of the
  database afterwards.\<close>

definition getProgress :: "database \<Rightarrow> int \<Rightarrow> string \<Rightarrow> jsval object \<times> database" where
  "getProgress db chatId week =
     (case findUser db chatId of
        None \<Rightarrow> (emptyProgress, db)
      | Some user \<Rightarrow>
          (case progress user of
             None \<Rightarrow> (emptyProgress, db)
           | Some prog \<Rightarrow>
               (case getProp prog week of
                  None \<Rightarrow> (emptyProgress, db)
                | Some wk \<Rightarrow>
                    if \<not> truthy (getProp wk ''daily'') then
                      (let wk1 = setProp wk ''daily'' (JDaily []);
                           wk2 = setProp wk1 ''daily'' (JDaily (backfillDaily wk1))
                       in (wk2, storeWeek db chatId prog week wk2))
                    else (wk, db))))"

section \<open>Reading the stored state\<close>

text \<open>\<^verbatim>\<open>user.progress[week]\<close> and \<^verbatim>\<open>user.progress[week][key]\<close> as the handlers read
  them (\<^verbatim>\<open>user && user.progress && user.progress[week]\<close>), and the week object that
  \<open>updateProgress\<close> starts from: the stored one, or a new empty one (lines 405-410).\<close>

definition storedWeek :: "database \<Rightarrow> int \<Rightarrow> string \<Rightarrow> jsval object option" where
  "storedWeek db chatId week =
     (case findUser db chatId of
        None \<Rightarrow> None
      | Some user \<Rightarrow>
          (case progress user of None \<Rightarrow> None | Some prog \<Rightarrow> getProp prog week))"

definition storedValue :: "database \<Rightarrow> int \<Rightarrow> string \<Rightarrow> string \<Rightarrow> jsval option" where
  "storedValue db chatId week key =
     (case storedWeek db chatId week of None \<Rightarrow> None | Some wk \<Rightarrow> getProp wk key)"

definition weekOrEmpty :: "database \<Rightarrow> int \<Rightarrow> string \<Rightarrow> jsval object" where
  "weekOrEmpty db chatId week =
     (case storedWeek db chatId week of None \<Rightarrow> [] | Some wk \<Rightarrow> wk)"

section \<open>Example data\<close>

definition exampleUser :: user where
  "exampleUser = \<lparr>userChatId = 42, startDate = Some 1000, progress = Some []\<rparr>"

definition exampleDb :: database where
  "exampleDb = \<lparr>users = [exampleUser], schedules = [], workouts = [], meals = []\<rparr>"

definition unstartedDb :: database where
  "unstartedDb =
     \<lparr>users = [\<lparr>userChatId = 42, startDate = None, progress = Some []\<rparr>],
      schedules = [], workouts = [], meals = []\<rparr>"

definition futureDb :: database where
  "futureDb =
     \<lparr>users = [\<lparr>userChatId = 42, startDate = Some (8 * 86400000), progress = Some []\<rparr>],
      schedules = [], workouts = [], meals = []\<rparr>"



definition afterFirst :: database where
  "afterFirst = snd (updateProgress exampleDb 42 ''monday_1700'' ''1'' True)"

section \<open>Properties of the week computation\<close>

lemma calculateCurrentWeek_enrolled:
  assumes "findUser db chatId = Some u" and "startDate u = Some start"
  shows "calculateCurrentWeek db now chatId = currentWeek_spec start now"
  using assms by (simp add: calculateCurrentWeek_def currentWeek_spec_def Let_def)

lemma currentWeek_spec_bounds: "1 \<le> currentWeek_spec start now \<and> currentWeek_spec start now \<le> 8"
proof -
  have "0 \<le> (\<bar>now - start\<bar> div 86400000) div 7"
    by (simp add: pos_imp_zdiv_nonneg_iff)
  then show ?thesis by (simp add: currentWeek_spec_def)
qed

lemma currentWeek_spec_mono:
  assumes "start \<le> now" and "now \<le> now'"
  shows "currentWeek_spec start now \<le> currentWeek_spec start now'"
proof -
  have "\<bar>now - start\<bar> \<le> \<bar>now' - start\<bar>" using assms by simp
  then have "\<bar>now - start\<bar> div 86400000 \<le> \<bar>now' - start\<bar> div 86400000"
    by (rule zdiv_mono1) simp
  then have "(\<bar>now - start\<bar> div 86400000) div 7 \<le> (\<bar>now' - start\<bar> div 86400000) div 7"
    by (rule zdiv_mono1) simp
  then show ?thesis by (simp add: currentWeek_spec_def min_def)
qed

text \<open>
  C4. For an enrolled user with a start timestamp, \<open>calculateCurrentWeek\<close> computes
  \<open>min(floor(floor(|now - start| / 86400s) / 7) + 1, 8)\<close>. Hence from the start on it
  lies in \<open>[1, 8]\<close> and never decreases as \<open>now\<close> grows; it is 1 at the start, 2 ten
  days later and 8 (capped) sixty days later. A user with no start timestamp is in week 1.
\<close>

theorem calculateCurrentWeek_spec:
  assumes "findUser db chatId = Some u"
  shows "(startDate u = None \<longrightarrow> calculateCurrentWeek db now chatId = 1) \<and>
         (\<forall>start. startDate u = Some start \<longrightarrow>
            calculateCurrentWeek db now chatId = currentWeek_spec start now \<and>
            (start \<le> now \<longrightarrow>
               1 \<le> calculateCurrentWeek db now chatId \<and>
               calculateCurrentWeek db now chatId \<le> 8 \<and>
               (\<forall>now'. now \<le> now' \<longrightarrow>
                  calculateCurrentWeek db now chatId \<le> calculateCurrentWeek db now' chatId)) \<and>
            calculateCurrentWeek db start chatId = 1 \<and>
            calculateCurrentWeek db (start + 10 * msPerDay) chatId = 2 \<and>
            calculateCurrentWeek db (start + 60 * msPerDay) chatId = 8)"
proof (intro conjI allI impI)
  assume "startDate u = None"
  with assms show "calculateCurrentWeek db now chatId = 1"
    by (simp add: calculateCurrentWeek_def)
next
  fix start assume s: "startDate u = Some start"
  note eq = calculateCurrentWeek_enrolled [OF assms s]
  show "calculateCurrentWeek db now chatId = currentWeek_spec start now" by (rule eq)
  show "calculateCurrentWeek db start chatId = 1"
    by (simp add: eq currentWeek_spec_def)
  show "calculateCurrentWeek db (start + 10 * msPerDay) chatId = 2"
    by (simp add: eq currentWeek_spec_def msPerDay_def)
  show "calculateCurrentWeek db (start + 60 * msPerDay) chatId = 8"
    by (simp add: eq currentWeek_spec_def msPerDay_def)
  {
    assume "start \<le> now"
    show "1 \<le> calculateCurrentWeek db now chatId"
      using currentWeek_spec_bounds [of start now] by (simp add: eq)
    show "calculateCurrentWeek db now chatId \<le> 8"
      using currentWeek_spec_bounds [of start now] by (simp add: eq)
  }
  {
    fix now' assume "start \<le> now" and "now \<le> now'"
    then show "calculateCurrentWeek db now chatId \<le> calculateCurrentWeek db now' chatId"
      using currentWeek_spec_mono [of start now now'] by (simp add: eq)
  }
qed

theorem calculateCurrentWeek_spec_witness:
  "findUser exampleDb 42 = Some exampleUser \<and> startDate exampleUser = Some 1000 \<and>
   calculateCurrentWeek exampleDb (1000 + 10 * msPerDay) 42 = 2 \<and>
   calculateCurrentWeek exampleDb (1000 + 60 * msPerDay) 42 = 8 \<and>
   calculateCurrentWeek exampleDb 1000 42 = 1 \<and>
   (1000::int) \<le> 1000 + msPerDay \<and> 1000 + msPerDay \<le> 1000 + 8 * msPerDay \<and>
   1 \<le> calculateCurrentWeek exampleDb (1000 + msPerDay) 42 \<and>
   calculateCurrentWeek exampleDb (1000 + msPerDay) 42 \<le> 8 \<and>
   calculateCurrentWeek exampleDb (1000 + msPerDay) 42
     \<le> calculateCurrentWeek exampleDb (1000 + 8 * msPerDay) 42 \<and>
   startDate (hd (users unstartedDb)) = None \<and>
   calculateCurrentWeek unstartedDb 5 42 = 1"
proof -
  have f: "findUser exampleDb 42 = Some exampleUser"
    by (simp add: findUser_def exampleDb_def exampleUser_def)
  have s: "startDate exampleUser = Some 1000"
    by (simp add: exampleUser_def)
  have g: "findUser unstartedDb 42 = Some (hd (users unstartedDb))"
    by (simp add: findUser_def unstartedDb_def)
  have n: "startDate (hd (users unstartedDb)) = None"
    by (simp add: unstartedDb_def)
  have le: "(1000::int) \<le> 1000 + msPerDay" "1000 + msPerDay \<le> 1000 + 8 * msPerDay"
    by (simp_all add: msPerDay_def)
  note enrolled = calculateCurrentWeek_spec [OF f, of "1000 + msPerDay"]
  from enrolled s le(1)
  have range: "1 \<le> calculateCurrentWeek exampleDb (1000 + msPerDay) 42 \<and>
               calculateCurrentWeek exampleDb (1000 + msPerDay) 42 \<le> 8"
    by blast
  from enrolled s le
  have mono: "calculateCurrentWeek exampleDb (1000 + msPerDay) 42
                \<le> calculateCurrentWeek exampleDb (1000 + 8 * msPerDay) 42"
    by blast
  from enrolled s
  have points: "calculateCurrentWeek exampleDb 1000 42 = 1 \<and>
                calculateCurrentWeek exampleDb (1000 + 10 * msPerDay) 42 = 2 \<and>
                calculateCurrentWeek exampleDb (1000 + 60 * msPerDay) 42 = 8"
    by blast
  from calculateCurrentWeek_spec [OF g, of 5] n
  have unstarted: "calculateCurrentWeek unstartedDb 5 42 = 1"
    by blast
  from f s n le range mono points unstarted show ?thesis
    by blast
qed

text \<open>
  C9. The elapsed time is taken in absolute value, so a start timestamp that lies in the
  future counts like one in the past: for \<open>now < start\<close> the week is
  \<open>min(floor(floor((start - now) / 86400s) / 7) + 1, 8)\<close>, and a start more than seven
  days ahead already gives week 2 or more.
\<close>

theorem calculateCurrentWeek_before_start:
  assumes "findUser db chatId = Some u" and "startDate u = Some start" and "now < start"
  shows "calculateCurrentWeek db now chatId = min (((start - now) div 86400000) div 7 + 1) 8 \<and>
         (7 * msPerDay < start - now \<longrightarrow> 2 \<le> calculateCurrentWeek db now chatId)"
proof -
  have a: "\<bar>now - start\<bar> = start - now" using assms(3) by simp
  have eq: "calculateCurrentWeek db now chatId = min (((start - now) div 86400000) div 7 + 1) 8"
    using assms(1,2) by (simp add: calculateCurrentWeek_def Let_def a)
  {
    assume "7 * msPerDay < start - now"
    then have "7 * 86400000 \<le> start - now" by (simp add: msPerDay_def)
    then have "7 \<le> (start - now) div 86400000" by simp
    then have "1 \<le> ((start - now) div 86400000) div 7" by simp
    then have "2 \<le> calculateCurrentWeek db now chatId" by (simp add: eq)
  }
  with eq show ?thesis by blast
qed

theorem calculateCurrentWeek_before_start_witness:
  "findUser futureDb 42 = Some (hd (users futureDb)) \<and>
   startDate (hd (users futureDb)) = Some (8 * 86400000) \<and>
   (0::int) < 8 * 86400000 \<and> 7 * msPerDay < 8 * 86400000 - 0 \<and>
   calculateCurrentWeek futureDb 0 42 = 2"
proof -
  have f: "findUser futureDb 42 = Some (hd (users futureDb))"
    by (simp add: findUser_def futureDb_def)
  have s: "startDate (hd (users futureDb)) = Some (8 * 86400000)"
    by (simp add: futureDb_def)
  have l: "(0::int) < 8 * 86400000" by simp
  have m: "7 * msPerDay < 8 * 86400000 - 0" by (simp add: msPerDay_def)
  show ?thesis
    using calculateCurrentWeek_before_start [OF f s l] f s m by simp
qed

section \<open>Objects and rows\<close>

lemma getProp_setProp_same: "getProp (setProp obj k v) k = Some v"
  by (induction obj k v rule: setProp.induct) auto

lemma getProp_setProp_other: "k' \<noteq> k \<Longrightarrow> getProp (setProp obj k v) k' = getProp obj k'"
  by (induction obj k v rule: setProp.induct) auto

lemma keys_setProp:
  "keys (setProp obj k v) = (if k \<in> set (keys obj) then keys obj else keys obj @ [k])"
  by (induction obj k v rule: setProp.induct) (auto simp: keys_def)


lemma find_updateFirst:
  assumes "\<And>x. P x \<Longrightarrow> P (f x)"
  shows "List.find P (updateFirst P f xs) = map_option f (List.find P xs)"
  using assms by (induction xs) auto

lemma findUser_storeWeek:
  "findUser (storeWeek db chatId prog week wk) chatId =
     map_option (\<lambda>u. u\<lparr>progress := Some (setProp prog week wk)\<rparr>) (findUser db chatId)"
  by (simp add: findUser_def storeWeek_def find_updateFirst)

section \<open>Properties of the progress tracker\<close>

text \<open>
  C6. \<open>updateProgress\<close> for a chat id that no user row carries does nothing: no exception
  is thrown and the database is left exactly as it was.
\<close>

theorem updateProgress_unknown_user:
  "findUser db chatId = None \<Longrightarrow> updateProgress db chatId task week completed' = (None, db)"
  by (simp add: updateProgress_def)

theorem updateProgress_unknown_user_witness:
  "findUser exampleDb 7 = None \<and>
   updateProgress exampleDb 7 ''monday_1700'' ''1'' True = (None, exampleDb)"
proof -
  have "findUser exampleDb 7 = None"
    by (simp add: findUser_def exampleDb_def exampleUser_def)
  then show ?thesis
    using updateProgress_unknown_user [of exampleDb 7 "''monday_1700''" "''1''" True] by simp
qed

text \<open>
  C7. Reading progress is idempotent: a second call of the handler of
  \<^verbatim>\<open>/get-progress\<close>, on the state the first call left, answers with the same object and
  leaves the same state. The backfill of \<^verbatim>\<open>daily\<close> happens at most once.
\<close>

theorem getProgress_idempotent:
  "getProgress (snd (getProgress db chatId week)) chatId week = getProgress db chatId week"
proof (cases "findUser db chatId")
  case None
  then show ?thesis by (simp add: getProgress_def)
next
  case (Some u)
  show ?thesis
  proof (cases "progress u")
    case None
    with Some show ?thesis by (simp add: getProgress_def)
  next
    case prog: (Some prog)
    show ?thesis
    proof (cases "getProp prog week")
      case None
      with Some prog show ?thesis by (simp add: getProgress_def)
    next
      case wk: (Some wk)
      show ?thesis
      proof (cases "truthy (getProp wk ''daily'')")
        case True
        with Some prog wk show ?thesis by (simp add: getProgress_def)
      next
        case False
        define wk2 where
          "wk2 = setProp (setProp wk ''daily'' (JDaily [])) ''daily''
                   (JDaily (backfillDaily (setProp wk ''daily'' (JDaily []))))"
        have first: "getProgress db chatId week = (wk2, storeWeek db chatId prog week wk2)"
          using Some prog wk False by (simp add: getProgress_def Let_def wk2_def)
        have t: "truthy (getProp wk2 ''daily'')"
          by (simp add: wk2_def getProp_setProp_same)
        have "getProgress (storeWeek db chatId prog week wk2) chatId week
                = (wk2, storeWeek db chatId prog week wk2)"
          using Some t by (simp add: getProgress_def findUser_storeWeek getProp_setProp_same)
        with first show ?thesis by simp
      qed
    qed
  qed
qed

section \<open>Properties of the schedule of a day\<close>







section \<open>The week object\<close>

lemma split_no_sep: "sep \<notin> set s \<Longrightarrow> split s sep = [s]"
  by (induction s) auto

lemma split_length: "length (split s sep) > 1 \<longleftrightarrow> sep \<in> set s"
proof (induction s)
  case Nil
  then show ?case by simp
next
  case (Cons x s)
  have ne: "split s sep \<noteq> []" by (cases s) auto
  then have "length (tl (split s sep)) = length (split s sep) - 1" by simp
  with Cons ne show ?case by (cases "split s sep") auto
qed

lemma getProp_keys: "getProp obj k = Some v \<Longrightarrow> k \<in> set (keys obj)"
  by (induction obj) (auto simp: keys_def split: if_splits)

lemma filter_keys_setProp:
  "\<not> P k \<Longrightarrow> filter P (keys (setProp obj k v)) = filter P (keys obj)"
  by (simp add: keys_setProp)

lemma filter_entries_setProp:
  "(\<And>v. \<not> Q (k, v)) \<Longrightarrow> filter Q (setProp obj k v) = filter Q obj"
  by (induction obj k v rule: setProp.induct) auto

lemma storedWeek_storeWeek:
  "findUser db chatId = Some u \<Longrightarrow>
     storedWeek (storeWeek db chatId prog week wk) chatId week = Some wk"
  by (simp add: storedWeek_def findUser_storeWeek getProp_setProp_same)

lemma storedValue_storeWeek:
  "findUser db chatId = Some u \<Longrightarrow>
     storedValue (storeWeek db chatId prog week wk) chatId week key = getProp wk key"
  by (simp add: storedValue_def storedWeek_storeWeek)

text \<open>The two outcomes of a call for an enrolled user, in terms of the week object.\<close>

lemma updateProgress_enrolled:
  assumes "findUser db chatId = Some u"
  shows "\<exists>prog.
           updateProgress db chatId task week c =
             (case updateDaily (recordTask (weekOrEmpty db chatId week) task c) task of
                Inl e \<Rightarrow>
                  (Some e, storeWeek db chatId prog week
                             (recordTask (weekOrEmpty db chatId week) task c))
              | Inr wk2 \<Rightarrow> (None, storeWeek db chatId prog week (updateTotals wk2)))"
  using assms
  by (cases "progress u")
     (auto simp: updateProgress_def weekOrEmpty_def storedWeek_def Let_def
           split: option.splits sum.splits)

lemma getProp_recordTask:
  assumes "task \<noteq> ''daily'' \<or> c"
  shows "getProp (recordTask wk task c) task = Some (JBool c)"
  using assms
  by (cases "task = ''daily''")
     (auto simp: recordTask_def Let_def getProp_setProp_same getProp_setProp_other)

lemma truthy_recordTask: "truthy (getProp (recordTask wk task c) ''daily'')"
  by (auto simp: recordTask_def Let_def getProp_setProp_same)


lemma keys_recordTask:
  "filter (\<lambda>key. \<not> strIncludes key ''daily'') (keys (recordTask wk task c))
     = filter (\<lambda>key. \<not> strIncludes key ''daily'') (keys (setProp wk task (JBool c)))"
  by (simp add: recordTask_def Let_def filter_keys_setProp)

lemma entries_recordTask:
  "filter (\<lambda>(key, value). \<not> strIncludes key ''daily'' \<and> value = JBool True)
       (recordTask wk task c)
     = filter (\<lambda>(key, value). \<not> strIncludes key ''daily'' \<and> value = JBool True)
         (setProp wk task (JBool c))"
  by (simp add: recordTask_def Let_def filter_entries_setProp)

lemma getProp_updateTotals_total:
  "getProp (updateTotals wk) ''total'' =
     Some (JNum (int (length (filter (\<lambda>key. \<not> strIncludes key ''daily'') (keys wk)))))"
  by (simp add: updateTotals_def Let_def getProp_setProp_same getProp_setProp_other)

lemma getProp_updateTotals_completed:
  "getProp (updateTotals wk) ''completed'' =
     Some (JNum (int (length (filter (\<lambda>(key, value).
                                        \<not> strIncludes key ''daily'' \<and> value = JBool True) wk))))"
  by (simp add: updateTotals_def Let_def getProp_setProp_same)

lemma getProp_updateTotals_other:
  "key \<noteq> ''total'' \<Longrightarrow> key \<noteq> ''completed'' \<Longrightarrow>
     getProp (updateTotals wk) key = getProp wk key"
  by (simp add: updateTotals_def Let_def getProp_setProp_other)

lemma updateDaily_plain: "CHR ''_'' \<notin> set task \<Longrightarrow> updateDaily wk task = Inr wk"
  by (simp add: updateDaily_def split_no_sep)

text \<open>What a successful \<open>updateDaily\<close> leaves alone: every property but \<^verbatim>\<open>daily\<close>, and
  with them both week counts.\<close>

lemma updateDaily_Inr:
  assumes "updateDaily wk task = Inr wk'"
  shows "(key \<noteq> ''daily'' \<longrightarrow> getProp wk' key = getProp wk key) \<and>
         truthy (getProp wk ''daily'') = truthy (getProp wk' ''daily'') \<and>
         keys wk' = keys wk \<and>
         filter (\<lambda>(key, value). \<not> strIncludes key ''daily'' \<and> value = JBool True) wk'
           = filter (\<lambda>(key, value). \<not> strIncludes key ''daily'' \<and> value = JBool True) wk"
proof (cases "length (split task CHR ''_'') > 1")
  case False
  with assms have "wk' = wk" by (simp add: updateDaily_def)
  then show ?thesis by simp
next
  case True
  with assms obtain daily where d: "getProp wk ''daily'' = Some (JDaily daily)"
    by (auto simp: updateDaily_def Let_def split: option.splits jsval.splits)
  with assms True obtain daily' where w: "wk' = setProp wk ''daily'' (JDaily daily')"
    by (auto simp: updateDaily_def Let_def)
  from d have "''daily'' \<in> set (keys wk)" by (rule getProp_keys)
  then have "keys wk' = keys wk" by (simp add: w keys_setProp)
  then show ?thesis
    by (simp add: w d getProp_setProp_same getProp_setProp_other filter_entries_setProp)
qed

lemma length_filter_pick:
  assumes "distinct ks" and "a \<in> set ks" and "P a"
  shows "length (filter P ks) = 1 + length (filter (\<lambda>k. P k \<and> k \<noteq> a) ks)"
  using assms
proof (induction ks)
  case Nil
  then show ?case by simp
next
  case (Cons x ks)
  show ?case
  proof (cases "x = a")
    case True
    with Cons.prems have "a \<notin> set ks" by simp
    then have "filter (\<lambda>k. P k \<and> k \<noteq> a) ks = filter P ks"
      by (intro filter_cong) auto
    with True Cons.prems show ?thesis by simp
  next
    case False
    with Cons show ?thesis by simp
  qed
qed

lemma distinct_keys_setProp: "distinct (keys obj) \<Longrightarrow> distinct (keys (setProp obj k v))"
  by (simp add: keys_setProp)

lemma aggregates_counted:
  assumes "distinct (keys wk)" and "''total'' \<in> set (keys wk)" and "''completed'' \<in> set (keys wk)"
  shows "length (filter (\<lambda>key. \<not> strIncludes key ''daily'') (keys wk))
           = 2 + length (filter (\<lambda>key. \<not> strIncludes key ''daily'' \<and>
                                        key \<noteq> ''total'' \<and> key \<noteq> ''completed'') (keys wk))"
proof -
  have "length (filter (\<lambda>key. \<not> strIncludes key ''daily'') (keys wk))
          = 1 + length (filter (\<lambda>key. \<not> strIncludes key ''daily'' \<and> key \<noteq> ''total'') (keys wk))"
    using assms(1,2) by (rule length_filter_pick) simp
  also have "length (filter (\<lambda>key. \<not> strIncludes key ''daily'' \<and> key \<noteq> ''total'') (keys wk))
          = 1 + length (filter (\<lambda>key. (\<not> strIncludes key ''daily'' \<and> key \<noteq> ''total'') \<and>
                                        key \<noteq> ''completed'') (keys wk))"
    using assms(1,3) by (rule length_filter_pick) simp
  finally show ?thesis by (simp add: conj_assoc)
qed


text \<open>The definitions that evaluating a call on the example data unfolds.\<close>

lemmas example_eval = updateProgress_def getProgress_def findUser_def recordTask_def
  updateDaily_def updateTotals_def storeWeek_def keys_def storedWeek_def storedValue_def
  weekOrEmpty_def exampleDb_def exampleUser_def afterFirst_def Let_def

lemma includes_daily_not_aggregate:
  "strIncludes task ''daily'' \<Longrightarrow> task \<noteq> ''total'' \<and> task \<noteq> ''completed''"
  by auto

text \<open>
  C10, as amended. \<open>updateProgress\<close> keeps \<^verbatim>\<open>daily\<close>, \<^verbatim>\<open>total\<close> and \<^verbatim>\<open>completed\<close> in the
  week object itself, next to the tasks, and a call that returns leaves all three there.
  For a task key that contains the substring \<^verbatim>\<open>daily\<close> (other than \<^verbatim>\<open>daily\<close> itself
  recorded with the flag false) the flag is stored under the key, also when the call
  throws, and when the call returns the stored \<^verbatim>\<open>total\<close> and \<^verbatim>\<open>completed\<close> are the
  counts over the week object as it was before: the task is not counted. Whenever a call
  returns on a week object that already has the properties \<^verbatim>\<open>total\<close> and \<^verbatim>\<open>completed\<close>,
  the new \<^verbatim>\<open>total\<close> counts these two as well: it is two more than the number of the
  other keys without the substring \<^verbatim>\<open>daily\<close>.
\<close>

theorem updateProgress_shared_namespace:
  assumes "findUser db chatId = Some u"
  shows "\<exists>err db'.
           updateProgress db chatId task week completed' = (err, db') \<and>
           (strIncludes task ''daily'' \<and> (task \<noteq> ''daily'' \<or> completed') \<longrightarrow>
              storedValue db' chatId week task = Some (JBool completed') \<and>
              (err = None \<longrightarrow>
                 storedValue db' chatId week ''total'' =
                   Some (JNum (int (length
                     (filter (\<lambda>key. \<not> strIncludes key ''daily'')
                        (keys (weekOrEmpty db chatId week)))))) \<and>
                 storedValue db' chatId week ''completed'' =
                   Some (JNum (int (length
                     (filter (\<lambda>(key, value). \<not> strIncludes key ''daily'' \<and> value = JBool True)
                        (weekOrEmpty db chatId week))))))) \<and>
           (err = None \<longrightarrow>
              truthy (storedValue db' chatId week ''daily'') \<and>
              storedValue db' chatId week ''total'' =
                Some (JNum (int (length
                  (filter (\<lambda>key. \<not> strIncludes key ''daily'')
                     (keys (setProp (weekOrEmpty db chatId week) task (JBool completed'))))))) \<and>
              storedValue db' chatId week ''completed'' =
                Some (JNum (int (length
                  (filter (\<lambda>(key, value). \<not> strIncludes key ''daily'' \<and> value = JBool True)
                     (setProp (weekOrEmpty db chatId week) task (JBool completed')))))) \<and>
              (distinct (keys (weekOrEmpty db chatId week)) \<and>
               ''total'' \<in> set (keys (weekOrEmpty db chatId week)) \<and>
               ''completed'' \<in> set (keys (weekOrEmpty db chatId week)) \<longrightarrow>
                 storedValue db' chatId week ''total'' =
                   Some (JNum (2 + int (length
                     (filter (\<lambda>key. \<not> strIncludes key ''daily'' \<and>
                                     key \<noteq> ''total'' \<and> key \<noteq> ''completed'')
                        (keys (setProp (weekOrEmpty db chatId week) task
                                 (JBool completed')))))))))"
proof -
  define wk0 where "wk0 = weekOrEmpty db chatId week"
  define wk1 where "wk1 = recordTask wk0 task completed'"
  note sv = storedValue_storeWeek [OF assms]
  from updateProgress_enrolled [OF assms, of task week completed']
  obtain prog where run:
    "updateProgress db chatId task week completed' =
       (case updateDaily wk1 task of
          Inl e \<Rightarrow> (Some e, storeWeek db chatId prog week wk1)
        | Inr wk2 \<Rightarrow> (None, storeWeek db chatId prog week (updateTotals wk2)))"
    unfolding wk1_def wk0_def by blast
  show ?thesis
  proof (cases "updateDaily wk1 task")
    case (Inl e)
    with run have r: "updateProgress db chatId task week completed' =
                        (Some e, storeWeek db chatId prog week wk1)"
      by simp
    have "storedValue (storeWeek db chatId prog week wk1) chatId week task
            = Some (JBool completed')"
      if "task \<noteq> ''daily'' \<or> completed'"
      using that by (simp add: sv wk1_def getProp_recordTask)
    with r show ?thesis by simp
  next
    case (Inr wk2)
    with run have r: "updateProgress db chatId task week completed' =
                        (None, storeWeek db chatId prog week (updateTotals wk2))"
      by simp
    note same = updateDaily_Inr [OF Inr]
    have ks: "keys wk2 = keys wk1" using same [of task] by simp
    have es: "filter (\<lambda>(key, value). \<not> strIncludes key ''daily'' \<and> value = JBool True) wk2
                = filter (\<lambda>(key, value). \<not> strIncludes key ''daily'' \<and> value = JBool True) wk1"
      using same [of task] by simp
    have daily: "truthy (getProp wk2 ''daily'')"
      using same [of task] by (simp add: wk1_def truthy_recordTask)
    have total: "getProp (updateTotals wk2) ''total'' =
                   Some (JNum (int (length
                     (filter (\<lambda>key. \<not> strIncludes key ''daily'')
                        (keys (setProp wk0 task (JBool completed')))))))"
      by (simp add: getProp_updateTotals_total ks wk1_def keys_recordTask)
    have completed: "getProp (updateTotals wk2) ''completed'' =
                   Some (JNum (int (length
                     (filter (\<lambda>(key, value). \<not> strIncludes key ''daily'' \<and> value = JBool True)
                        (setProp wk0 task (JBool completed'))))))"
      by (simp add: getProp_updateTotals_completed es wk1_def entries_recordTask)
    have counted: "getProp (updateTotals wk2) ''total'' =
                   Some (JNum (2 + int (length
                     (filter (\<lambda>key. \<not> strIncludes key ''daily'' \<and>
                                     key \<noteq> ''total'' \<and> key \<noteq> ''completed'')
                        (keys (setProp wk0 task (JBool completed')))))))"
      if "distinct (keys wk0)" and "''total'' \<in> set (keys wk0)"
        and "''completed'' \<in> set (keys wk0)"
    proof -
      have "distinct (keys (setProp wk0 task (JBool completed')))"
        using that(1) by (rule distinct_keys_setProp)
      moreover have "''total'' \<in> set (keys (setProp wk0 task (JBool completed')))"
        using that(2) by (simp add: keys_setProp)
      moreover have "''completed'' \<in> set (keys (setProp wk0 task (JBool completed')))"
        using that(3) by (simp add: keys_setProp)
      ultimately show ?thesis
        by (simp add: total aggregates_counted)
    qed
    have hidden:
      "getProp (updateTotals wk2) task = Some (JBool completed') \<and>
       getProp (updateTotals wk2) ''total'' =
         Some (JNum (int (length (filter (\<lambda>key. \<not> strIncludes key ''daily'') (keys wk0))))) \<and>
       getProp (updateTotals wk2) ''completed'' =
         Some (JNum (int (length
           (filter (\<lambda>(key, value). \<not> strIncludes key ''daily'' \<and> value = JBool True) wk0))))"
      if inc: "strIncludes task ''daily''" and ok: "task \<noteq> ''daily'' \<or> completed'"
    proof -
      from inc have na: "task \<noteq> ''total''" "task \<noteq> ''completed''"
        by (simp_all add: includes_daily_not_aggregate)
      have "getProp wk2 task = getProp wk1 task"
      proof (cases "task = ''daily''")
        case True
        then have "updateDaily wk1 task = Inr wk1" by (simp add: updateDaily_plain)
        with Inr show ?thesis by simp
      next
        case False
        with same [of task] show ?thesis by simp
      qed
      then have "getProp (updateTotals wk2) task = Some (JBool completed')"
        using na ok by (simp add: getProp_updateTotals_other wk1_def getProp_recordTask)
      moreover have "filter (\<lambda>key. \<not> strIncludes key ''daily'')
                        (keys (setProp wk0 task (JBool completed')))
                     = filter (\<lambda>key. \<not> strIncludes key ''daily'') (keys wk0)"
        using inc by (simp add: filter_keys_setProp)
      moreover have "filter (\<lambda>(key, value). \<not> strIncludes key ''daily'' \<and> value = JBool True)
                        (setProp wk0 task (JBool completed'))
                     = filter (\<lambda>(key, value). \<not> strIncludes key ''daily'' \<and> value = JBool True)
                         wk0"
        using inc by (simp add: filter_entries_setProp)
      ultimately show ?thesis using total completed by simp
    qed
    define db' where "db' = storeWeek db chatId prog week (updateTotals wk2)"
    have sv': "storedValue db' chatId week key = getProp (updateTotals wk2) key" for key
      by (simp add: db'_def sv)
    have part1:
      "strIncludes task ''daily'' \<and> (task \<noteq> ''daily'' \<or> completed') \<longrightarrow>
         storedValue db' chatId week task = Some (JBool completed') \<and>
         ((None :: error option) = None \<longrightarrow>
            storedValue db' chatId week ''total'' =
              Some (JNum (int (length
                (filter (\<lambda>key. \<not> strIncludes key ''daily'') (keys wk0))))) \<and>
            storedValue db' chatId week ''completed'' =
              Some (JNum (int (length
                (filter (\<lambda>(key, value). \<not> strIncludes key ''daily'' \<and> value = JBool True)
                   wk0)))))"
      using hidden by (simp add: sv')
    have part2:
      "truthy (storedValue db' chatId week ''daily'') \<and>
       storedValue db' chatId week ''total'' =
         Some (JNum (int (length
           (filter (\<lambda>key. \<not> strIncludes key ''daily'')
              (keys (setProp wk0 task (JBool completed'))))))) \<and>
       storedValue db' chatId week ''completed'' =
         Some (JNum (int (length
           (filter (\<lambda>(key, value). \<not> strIncludes key ''daily'' \<and> value = JBool True)
              (setProp wk0 task (JBool completed'))))))"
      using daily total completed by (simp add: sv' getProp_updateTotals_other)
    have part3:
      "distinct (keys wk0) \<and> ''total'' \<in> set (keys wk0) \<and> ''completed'' \<in> set (keys wk0) \<longrightarrow>
         storedValue db' chatId week ''total'' =
           Some (JNum (2 + int (length
             (filter (\<lambda>key. \<not> strIncludes key ''daily'' \<and>
                             key \<noteq> ''total'' \<and> key \<noteq> ''completed'')
                (keys (setProp wk0 task (JBool completed')))))))"
      using counted by (simp add: sv')
    from r have r': "updateProgress db chatId task week completed' = (None, db')"
      by (simp add: db'_def)
    from r' part1 part2 part3 show ?thesis
      unfolding wk0_def by blast
  qed
qed

lemma findUser_exampleDb: "findUser exampleDb 42 = Some exampleUser"
  by (simp add: findUser_def exampleDb_def exampleUser_def)

lemma afterFirst_eq:
  "afterFirst =
     \<lparr>users =
        [\<lparr>userChatId = 42, startDate = Some 1000,
          progress =
            Some [(''1'', [(''monday_1700'', JBool True),
                           (''daily'', JDaily [(''monday'', \<lparr>completed = 1, total = 1\<rparr>)]),
                           (''total'', JNum 1), (''completed'', JNum 1)])]\<rparr>],
      schedules = [], workouts = [], meals = []\<rparr>"
  by (simp add: example_eval)

lemma getProgress_stored:
  assumes "storedWeek db chatId week = Some wk" and "truthy (getProp wk ''daily'')"
  shows "getProgress db chatId week = (wk, db)"
  using assms by (auto simp: getProgress_def storedWeek_def split: option.splits)

text \<open>
  C1. What the code answers in the scenario of the claim. For an enrolled user and a week
  with nothing stored, after \<open>updateProgress\<close> with \<^verbatim>\<open>monday_1700\<close>, true, and then with
  \<^verbatim>\<open>monday_1600\<close>, false, the handler of \<^verbatim>\<open>/get-progress\<close> answers with
  \<^verbatim>\<open>daily.monday = { completed: 1, total: 1 }\<close>, \<^verbatim>\<open>total = 4\<close> and \<^verbatim>\<open>completed = 1\<close>:
  the day's total is counted only when the day is first seen, and the second recount of
  the week counts the properties \<^verbatim>\<open>total\<close> and \<^verbatim>\<open>completed\<close> that the first one stored.
\<close>

theorem updateProgress_two_tasks:
  assumes "findUser db chatId = Some u" and "storedWeek db chatId week = None"
  shows "fst (getProgress
                (snd (updateProgress
                        (snd (updateProgress db chatId ''monday_1700'' week True))
                        chatId ''monday_1600'' week False))
                chatId week)
           = [(''monday_1700'', JBool True),
              (''daily'', JDaily [(''monday'', \<lparr>completed = 1, total = 1\<rparr>)]),
              (''total'', JNum 4), (''completed'', JNum 1),
              (''monday_1600'', JBool False)]"
proof -
  define wkA where
    "wkA = [(''monday_1700'', JBool True),
            (''daily'', JDaily [(''monday'', \<lparr>completed = 1, total = 1\<rparr>)]),
            (''total'', JNum 1), (''completed'', JNum 1)]"
  define wkB where
    "wkB = [(''monday_1700'', JBool True),
            (''daily'', JDaily [(''monday'', \<lparr>completed = 1, total = 1\<rparr>)]),
            (''total'', JNum 4), (''completed'', JNum 1),
            (''monday_1600'', JBool False)]"
  have w0: "weekOrEmpty db chatId week = []"
    using assms(2) by (simp add: weekOrEmpty_def)
  from updateProgress_enrolled [OF assms(1), of "''monday_1700''" week True]
  obtain prog where
    "updateProgress db chatId ''monday_1700'' week True
       = (None, storeWeek db chatId prog week wkA)"
    by (auto simp: w0 wkA_def recordTask_def updateDaily_def updateTotals_def keys_def Let_def)
  then have one: "snd (updateProgress db chatId ''monday_1700'' week True)
                    = storeWeek db chatId prog week wkA"
    by simp
  define db1 where "db1 = storeWeek db chatId prog week wkA"
  have u1: "findUser db1 chatId = Some (u\<lparr>progress := Some (setProp prog week wkA)\<rparr>)"
    by (simp add: db1_def findUser_storeWeek assms(1))
  have w1: "weekOrEmpty db1 chatId week = wkA"
    by (simp add: weekOrEmpty_def db1_def storedWeek_storeWeek [OF assms(1)])
  from updateProgress_enrolled [OF u1, of "''monday_1600''" week False]
  obtain prog' where
    "updateProgress db1 chatId ''monday_1600'' week False
       = (None, storeWeek db1 chatId prog' week wkB)"
    by (auto simp: w1 wkA_def wkB_def recordTask_def updateDaily_def updateTotals_def keys_def
        Let_def)
  then have two: "snd (updateProgress db1 chatId ''monday_1600'' week False)
                    = storeWeek db1 chatId prog' week wkB"
    by simp
  have "storedWeek (storeWeek db1 chatId prog' week wkB) chatId week = Some wkB"
    by (rule storedWeek_storeWeek [OF u1])
  moreover have "truthy (getProp wkB ''daily'')" by (simp add: wkB_def)
  ultimately have "getProgress (storeWeek db1 chatId prog' week wkB) chatId week
                     = (wkB, storeWeek db1 chatId prog' week wkB)"
    by (rule getProgress_stored)
  then show ?thesis
    by (simp add: one two db1_def [symmetric] wkB_def [symmetric])
qed

theorem updateProgress_two_tasks_witness:
  "findUser exampleDb 42 = Some exampleUser \<and> storedWeek exampleDb 42 ''1'' = None \<and>
   getProp (fst (getProgress
                   (snd (updateProgress
                           (snd (updateProgress exampleDb 42 ''monday_1700'' ''1'' True))
                           42 ''monday_1600'' ''1'' False))
                   42 ''1'')) ''total'' = Some (JNum 4)"
proof -
  have s: "storedWeek exampleDb 42 ''1'' = None"
    by (simp add: storedWeek_def findUser_exampleDb) (simp add: exampleUser_def)
  show ?thesis
    using updateProgress_two_tasks [OF findUser_exampleDb s] findUser_exampleDb s by simp
qed

text \<open>
  C2. The stored week object after the same two calls on the example database: two task
  entries, both of Monday, one of them true; yet \<^verbatim>\<open>total\<close> is 4 and the total of
  \<^verbatim>\<open>daily.monday\<close> is 1.
\<close>

theorem updateProgress_totals_drift:
  "storedWeek (snd (updateProgress afterFirst 42 ''monday_1600'' ''1'' False)) 42 ''1''
     = Some [(''monday_1700'', JBool True),
             (''daily'', JDaily [(''monday'', \<lparr>completed = 1, total = 1\<rparr>)]),
             (''total'', JNum 4), (''completed'', JNum 1),
             (''monday_1600'', JBool False)]"
  by (simp add: example_eval)

text \<open>
  C3. Two Monday tasks recorded as completed, one after the other, on the example
  database: the stored counter of Monday has \<open>completed = 2\<close> and \<open>total = 1\<close>.
\<close>

theorem updateProgress_completed_exceeds_total:
  "storedValue (snd (updateProgress afterFirst 42 ''monday_1600'' ''1'' True)) 42 ''1'' ''daily''
     = Some (JDaily [(''monday'', \<lparr>completed = 2, total = 1\<rparr>)])"
  by (simp add: example_eval)


text \<open>
  C10 as stated fails for the key \<^verbatim>\<open>daily\<close> recorded with the flag false: the falsy
  value is taken for a missing \<^verbatim>\<open>daily\<close> object and replaced by an empty one.
\<close>

theorem updateProgress_shared_namespace_counterexample:
  "strIncludes ''daily'' ''daily'' \<and>
   storedValue (snd (updateProgress exampleDb 42 ''daily'' ''1'' False)) 42 ''1'' ''daily''
     = Some (JDaily []) \<and>
   storedValue (snd (updateProgress exampleDb 42 ''daily'' ''1'' False)) 42 ''1'' ''daily''
     \<noteq> Some (JBool False)"
  by (simp add: example_eval)


theorem updateProgress_shared_namespace_witness:
  "findUser afterFirst 42 = Some (hd (users afterFirst)) \<and>
   strIncludes ''mydaily_1'' ''daily'' \<and> ''mydaily_1'' \<noteq> ''daily'' \<and>
   distinct (keys (weekOrEmpty afterFirst 42 ''1'')) \<and>
   ''total'' \<in> set (keys (weekOrEmpty afterFirst 42 ''1'')) \<and>
   ''completed'' \<in> set (keys (weekOrEmpty afterFirst 42 ''1'')) \<and>
   fst (updateProgress afterFirst 42 ''mydaily_1'' ''1'' True) = None \<and>
   storedValue (snd (updateProgress afterFirst 42 ''mydaily_1'' ''1'' True)) 42 ''1'' ''mydaily_1''
     = Some (JBool True) \<and>
   storedValue (snd (updateProgress afterFirst 42 ''mydaily_1'' ''1'' True)) 42 ''1'' ''total''
     = Some (JNum 3) \<and>
   storedValue (snd (updateProgress afterFirst 42 ''mydaily_1'' ''1'' True)) 42 ''1'' ''completed''
     = Some (JNum 1)"
proof -
  have f: "findUser afterFirst 42 = Some (hd (users afterFirst))"
    by (simp add: afterFirst_eq findUser_def)
  have w: "weekOrEmpty afterFirst 42 ''1'' =
             [(''monday_1700'', JBool True),
              (''daily'', JDaily [(''monday'', \<lparr>completed = 1, total = 1\<rparr>)]),
              (''total'', JNum 1), (''completed'', JNum 1)]"
    by (simp add: afterFirst_eq weekOrEmpty_def storedWeek_def findUser_def)
  have i: "strIncludes ''mydaily_1'' ''daily''" "''mydaily_1'' \<noteq> ''daily''"
    by simp_all
  have d: "distinct (keys (weekOrEmpty afterFirst 42 ''1''))"
    "''total'' \<in> set (keys (weekOrEmpty afterFirst 42 ''1''))"
    "''completed'' \<in> set (keys (weekOrEmpty afterFirst 42 ''1''))"
    by (simp_all add: w keys_def)
  have e: "fst (updateProgress afterFirst 42 ''mydaily_1'' ''1'' True) = None"
    by (simp add: afterFirst_eq updateProgress_def findUser_def recordTask_def updateDaily_def
        Let_def)
  from updateProgress_shared_namespace [OF f, of "''mydaily_1''" "''1''" True]
  obtain err db' where
    r: "updateProgress afterFirst 42 ''mydaily_1'' ''1'' True = (err, db')" and
    h: "strIncludes ''mydaily_1'' ''daily'' \<and> (''mydaily_1'' \<noteq> ''daily'' \<or> True) \<longrightarrow>
          storedValue db' 42 ''1'' ''mydaily_1'' = Some (JBool True) \<and>
          (err = None \<longrightarrow>
             storedValue db' 42 ''1'' ''total'' =
               Some (JNum (int (length
                 (filter (\<lambda>key. \<not> strIncludes key ''daily'')
                    (keys (weekOrEmpty afterFirst 42 ''1'')))))) \<and>
             storedValue db' 42 ''1'' ''completed'' =
               Some (JNum (int (length
                 (filter (\<lambda>(key, value). \<not> strIncludes key ''daily'' \<and> value = JBool True)
                    (weekOrEmpty afterFirst 42 ''1''))))))"
    by blast
  from r e have en: "err = None" by simp
  from h i en have
    "storedValue db' 42 ''1'' ''mydaily_1'' = Some (JBool True) \<and>
     storedValue db' 42 ''1'' ''total'' = Some (JNum 3) \<and>
     storedValue db' 42 ''1'' ''completed'' = Some (JNum 1)"
    by (simp add: w keys_def)
  with r f i d e show ?thesis by simp
qed

end
